theory Spec2Isabelle
  imports Complex_Main
begin

section \<open>JavaScript numbers\<close>

text \<open>
  The player computes with JavaScript numbers. A finite number is modelled by the real it
  denotes (rounding, overflow and the sign of zero are left out); the two infinities and
  NaN are kept, since the quotient \<open>currentTime / duration\<close> and the guards
  \<open>|| 0\<close> of the source depend on them.
\<close>

datatype jsnum = Num real | PosInf | NegInf | NaN

text \<open>The operator \<open>/\<close>.\<close>

fun js_div :: "jsnum \<Rightarrow> jsnum \<Rightarrow> jsnum" where
  "js_div (Num a) (Num b) =
     (if b = 0 then (if a = 0 then NaN else if 0 < a then PosInf else NegInf)
      else Num (a / b))"
| "js_div (Num a) PosInf = Num 0"
| "js_div (Num a) NegInf = Num 0"
| "js_div PosInf (Num b) = (if 0 \<le> b then PosInf else NegInf)"
| "js_div NegInf (Num b) = (if 0 \<le> b then NegInf else PosInf)"
| "js_div _ _ = NaN"

text \<open>The operator \<open>*\<close>.\<close>

fun js_mul :: "jsnum \<Rightarrow> jsnum \<Rightarrow> jsnum" where
  "js_mul (Num a) (Num b) = Num (a * b)"
| "js_mul (Num a) PosInf = (if a = 0 then NaN else if 0 < a then PosInf else NegInf)"
| "js_mul (Num a) NegInf = (if a = 0 then NaN else if 0 < a then NegInf else PosInf)"
| "js_mul PosInf (Num b) = (if b = 0 then NaN else if 0 < b then PosInf else NegInf)"
| "js_mul NegInf (Num b) = (if b = 0 then NaN else if 0 < b then NegInf else PosInf)"
| "js_mul PosInf PosInf = PosInf"
| "js_mul NegInf NegInf = PosInf"
| "js_mul PosInf NegInf = NegInf"
| "js_mul NegInf PosInf = NegInf"
| "js_mul _ _ = NaN"

text \<open>The comparison \<open><=\<close>: false as soon as one side is NaN.\<close>

fun js_le :: "jsnum \<Rightarrow> jsnum \<Rightarrow> bool" where
  "js_le NaN _ = False"
| "js_le _ NaN = False"
| "js_le (Num a) (Num b) = (a \<le> b)"
| "js_le NegInf _ = True"
| "js_le _ PosInf = True"
| "js_le _ _ = False"

text \<open>The comparison \<open><\<close>.\<close>

fun js_lt :: "jsnum \<Rightarrow> jsnum \<Rightarrow> bool" where
  "js_lt NaN _ = False"
| "js_lt _ NaN = False"
| "js_lt (Num a) (Num b) = (a < b)"
| "js_lt PosInf _ = False"
| "js_lt _ NegInf = False"
| "js_lt _ _ = True"

text \<open>Strict equality \<open>===\<close>, which \<open>indexOf\<close> uses: NaN equals nothing.\<close>

definition js_strict_eq :: "jsnum \<Rightarrow> jsnum \<Rightarrow> bool" where
  "js_strict_eq x y = (x \<noteq> NaN \<and> x = y)"

text \<open>Truthiness of a number, and the guard \<open>x || y\<close>.\<close>

definition truthy :: "jsnum \<Rightarrow> bool" where
  "truthy x = (x \<noteq> NaN \<and> x \<noteq> Num 0)"

definition js_or :: "jsnum \<Rightarrow> jsnum \<Rightarrow> jsnum" where
  "js_or x y = (if truthy x then x else y)"

text \<open>The remainder \<open>%\<close> on integers: the result has the sign of the dividend.\<close>

definition js_rem :: "int \<Rightarrow> int \<Rightarrow> int" where
  "js_rem a b = (if 0 \<le> a then \<bar>a\<bar> mod \<bar>b\<bar> else - (\<bar>a\<bar> mod \<bar>b\<bar>))"

text \<open>\<open>Array.prototype.indexOf\<close>: the first index holding the value, \<open>-1\<close> if none.\<close>

fun indexOf_from :: "int \<Rightarrow> jsnum list \<Rightarrow> jsnum \<Rightarrow> int" where
  "indexOf_from i [] x = -1"
| "indexOf_from i (y # ys) x = (if js_strict_eq y x then i else indexOf_from (i + 1) ys x)"

definition indexOf :: "jsnum list \<Rightarrow> jsnum \<Rightarrow> int" where
  "indexOf xs x = indexOf_from 0 xs x"

section \<open>Data\<close>

text \<open>
  A timecode entry of the list handed in by the host. The fields \<open>time\<close>, \<open>text\<close>,
  \<open>value\<close> and \<open>objects\<close> of the source carry the prefix \<open>tc_\<close> here; an optional
  field that is absent is \<open>None\<close>.
\<close>

record detected_object =
  obj_name :: string
  box_2d :: "jsnum list option"

record timecode =
  tc_time :: string
  tc_text :: "string option"
  tc_value :: "jsnum option"
  tc_objects :: "detected_object list option"

text \<open>
  The object \<open>{time, ts}\<close> that \<open>jumpToTimecode\<close> builds. React compares effect
  dependencies by reference, so the object carries its identity \<open>op_ref\<close>.
\<close>

record seek_op =
  op_ref :: nat
  op_time :: jsnum
  op_ts :: nat

text \<open>
  The media element, as far as the player reads and writes it: its identity, the position
  and duration it reports, and the two properties the player assigns.
\<close>

record video_el =
  v_ref :: nat
  v_currentTime :: jsnum
  v_duration :: jsnum
  v_volume :: jsnum
  v_playbackRate :: jsnum

text \<open>What the player does to a media element: method calls and property writes.\<close>

datatype dom_op =
    CallPlay
  | CallPause
  | SetCurrentTime jsnum
  | SetVolume jsnum
  | SetPlaybackRate jsnum

text \<open>The props of \<open>VideoPlayer\<close> (the callback \<open>jumpToTimecode\<close> apart).\<close>

record props =
  url :: "string option"
  timecodeList :: "timecode list option"
  seekOperation :: "seek_op option"
  isLoadingVideo :: bool
  videoError :: bool

text \<open>
  The state of the component, one field for each \<open>useState\<close>. The field \<open>calls\<close> is
  not state of the source: it lists, oldest first, the operations made on media elements,
  each with the identity of the element it was made on.
\<close>

record player =
  video :: "video_el option"
  duration :: jsnum
  scrubberTime :: jsnum
  isPlaying :: bool
  isScrubbing :: bool
  currentData :: "timecode option"
  volume :: jsnum
  isMuted :: bool
  playbackRate :: jsnum
  isFullscreen :: bool
  calls :: "(nat \<times> dom_op) list"

text \<open>Reading a property of \<open>video\<close> while it is still \<open>null\<close> throws.\<close>

datatype error = TypeError

definition initial :: player where
  "initial = \<lparr> video = None, duration = Num 0, scrubberTime = Num 0, isPlaying = False,
     isScrubbing = False, currentData = None, volume = Num 1, isMuted = False,
     playbackRate = Num 1, isFullscreen = False, calls = [] \<rparr>"

text \<open>
  An operation on the attached element is logged. A written volume or rate is what the
  element holds from then on; the position stays the element's to report, so a write to
  \<open>currentTime\<close> is a seek in the log and nothing more.
\<close>

definition apply_op :: "dom_op \<Rightarrow> video_el \<Rightarrow> video_el" where
  "apply_op op v =
     (case op of
        SetVolume x \<Rightarrow> v\<lparr>v_volume := x\<rparr>
      | SetPlaybackRate x \<Rightarrow> v\<lparr>v_playbackRate := x\<rparr>
      | _ \<Rightarrow> v)"

definition dom_write :: "dom_op \<Rightarrow> video_el \<Rightarrow> player \<Rightarrow> player" where
  "dom_write op v s = s\<lparr>video := Some (apply_op op v), calls := calls s @ [(v_ref v, op)]\<rparr>"

section \<open>Handlers of \<open>VideoPlayer\<close>\<close>

text \<open>
  Each handler is a function of the props and state of the render that created it. A
  handler that reads \<open>video\<close> returns \<open>Inl TypeError\<close> where \<open>video\<close> is \<open>null\<close>;
  a state that the handler had set before it threw is not part of the result.
\<close>

definition togglePlay :: "player \<Rightarrow> error + player" where
  "togglePlay s =
     (case video s of
        None \<Rightarrow> Inl TypeError
      | Some v \<Rightarrow> Inr (dom_write (if isPlaying s then CallPause else CallPlay) v s))"

definition updateDuration :: "player \<Rightarrow> error + player" where
  "updateDuration s =
     (case video s of
        None \<Rightarrow> Inl TypeError
      | Some v \<Rightarrow> Inr (s\<lparr>duration := v_duration v\<rparr>))"

text \<open>
  \<open>timecodeListReversed\<close> is \<open>timecodeList.toReversed()\<close>, the list \<open>rev tcs\<close>, and
  \<open>find\<close> returns the first element that satisfies the test, \<open>undefined\<close> (here
  \<open>None\<close>) if there is none.
  \<open>timeToSecs\<close> comes from a module that is not among the source files: it is the
  parameter \<open>tts\<close>.
\<close>

definition select_annotation ::
  "(string \<Rightarrow> jsnum) \<Rightarrow> timecode list \<Rightarrow> jsnum \<Rightarrow> timecode option" where
  "select_annotation tts tcs ct = find (\<lambda>t. js_le (tts (tc_time t)) ct) (rev tcs)"

text \<open>
  \<open>updateTime\<close>: the first statement reads \<open>video\<close> unless a drag is in progress; the
  test of \<open>find\<close> reads it once for each entry it visits, so not at all on an empty list.
\<close>

definition updateTime :: "(string \<Rightarrow> jsnum) \<Rightarrow> props \<Rightarrow> player \<Rightarrow> error + player" where
  "updateTime tts p s =
     (case video s of
        None \<Rightarrow>
          (if \<not> isScrubbing s then Inl TypeError
           else (case timecodeList p of
                   None \<Rightarrow> Inr s
                 | Some tcs \<Rightarrow>
                     (if tcs = [] then Inr (s\<lparr>currentData := None\<rparr>) else Inl TypeError)))
      | Some v \<Rightarrow>
          (let s1 = (if \<not> isScrubbing s
                     then s\<lparr>scrubberTime := js_div (v_currentTime v) (v_duration v)\<rparr>
                     else s)
           in case timecodeList p of
                None \<Rightarrow> Inr s1
              | Some tcs \<Rightarrow>
                  Inr (s1\<lparr>currentData := select_annotation tts tcs (v_currentTime v)\<rparr>)))"

definition onPlay :: "player \<Rightarrow> player" where
  "onPlay s = s\<lparr>isPlaying := True\<rparr>"

definition onPause :: "player \<Rightarrow> player" where
  "onPause s = s\<lparr>isPlaying := False\<rparr>"

definition rates :: "jsnum list" where
  "rates = [Num 0.5, Num 1, Num 1.5, Num 2]"

definition nextIndex :: "jsnum \<Rightarrow> int" where
  "nextIndex r = js_rem (indexOf rates r + 1) (int (length rates))"

text \<open>
  \<open>rates[nextIndex]\<close>: \<open>nextIndex\<close> is always an index of \<open>rates\<close> (lemma
  \<open>nextIndex_range\<close> below), so the read never leaves the array.
\<close>

definition cyclePlaybackRate :: "player \<Rightarrow> player" where
  "cyclePlaybackRate s = s\<lparr>playbackRate := rates ! nat (nextIndex (playbackRate s))\<rparr>"

definition toggleMute :: "player \<Rightarrow> player" where
  "toggleMute s = s\<lparr>isMuted := \<not> isMuted s\<rparr>"

text \<open>The volume slider: \<open>onChange\<close> with the slider's \<open>valueAsNumber\<close>.\<close>

definition volumeSlider_onChange :: "jsnum \<Rightarrow> player \<Rightarrow> player" where
  "volumeSlider_onChange x s = s\<lparr>volume := x, isMuted := js_strict_eq x (Num 0)\<rparr>"

text \<open>The scrubber: \<open>onChange\<close> with its \<open>valueAsNumber\<close>, \<open>onPointerDown\<close>, \<open>onPointerUp\<close>.\<close>

definition scrubber_onChange :: "jsnum \<Rightarrow> player \<Rightarrow> error + player" where
  "scrubber_onChange x s =
     (case video s of
        None \<Rightarrow> Inl TypeError
      | Some v \<Rightarrow>
          Inr (dom_write (SetCurrentTime (js_mul x (duration s))) v (s\<lparr>scrubberTime := x\<rparr>)))"

definition scrubber_onPointerDown :: "player \<Rightarrow> player" where
  "scrubber_onPointerDown s = s\<lparr>isScrubbing := True\<rparr>"

definition scrubber_onPointerUp :: "player \<Rightarrow> player" where
  "scrubber_onPointerUp s = s\<lparr>isScrubbing := False\<rparr>"

text \<open>What the render shows of the position.\<close>

definition currentSecs :: "player \<Rightarrow> jsnum" where
  "currentSecs s = js_or (js_mul (duration s) (scrubberTime s)) (Num 0)"

definition currentPercent :: "player \<Rightarrow> jsnum" where
  "currentPercent s = js_mul (scrubberTime s) (Num 100)"

definition scrubber_value :: "player \<Rightarrow> jsnum" where
  "scrubber_value s = js_or (scrubberTime s) (Num 0)"

text \<open>The click handlers of the video surface and of the play button.\<close>

definition video_onClick :: "player \<Rightarrow> error + player" where
  "video_onClick s = togglePlay s"

definition playButton_onClick :: "player \<Rightarrow> error + player" where
  "playButton_onClick s = togglePlay s"

text \<open>
  The global \<open>keypress\<close> listener. Of the event it reads the tag name of the target and
  the key. \<open>acceptsText\<close> says whether the target takes text input; the listener never
  reads it.
\<close>

record key_event =
  target_tagName :: string
  target_acceptsText :: bool
  key :: string

definition onKeyPress :: "key_event \<Rightarrow> player \<Rightarrow> error + player" where
  "onKeyPress e s =
     (if target_tagName e \<noteq> ''INPUT'' \<and> target_tagName e \<noteq> ''TEXTAREA'' \<and> key e = '' ''
      then togglePlay s else Inr s)"

text \<open>
  The state of the component proper: a state without its element and without the list of
  operations.
\<close>

definition without_element :: "player \<Rightarrow> player" where
  "without_element s = s\<lparr>video := None, calls := []\<rparr>"

section \<open>Effects\<close>

text \<open>
  The four \<open>useEffect\<close> bodies that act on state or on the media element. An effect
  reads the props and state of the render it belongs to (\<open>r\<close>); what it sets or
  writes goes into the state under construction (\<open>s\<close>). The element written is the one
  of the state under construction, which has the identity of \<open>video r\<close>.
\<close>

definition effect_reset :: "player \<Rightarrow> player" where
  "effect_reset s =
     s\<lparr>scrubberTime := Num 0, isPlaying := False, playbackRate := Num 1, currentData := None\<rparr>"

definition effect_seek :: "props \<Rightarrow> player \<Rightarrow> player \<Rightarrow> player" where
  "effect_seek p r s =
     (case (video r, seekOperation p, video s) of
        (Some _, Some sk, Some v) \<Rightarrow> dom_write (SetCurrentTime (op_time sk)) v s
      | _ \<Rightarrow> s)"

definition effect_volume :: "player \<Rightarrow> player \<Rightarrow> player" where
  "effect_volume r s =
     (case (video r, video s) of
        (Some _, Some v) \<Rightarrow> dom_write (SetVolume (if isMuted r then Num 0 else volume r)) v s
      | _ \<Rightarrow> s)"

definition effect_rate :: "player \<Rightarrow> player \<Rightarrow> player" where
  "effect_rate r s =
     (case (video r, video s) of
        (Some _, Some v) \<Rightarrow> dom_write (SetPlaybackRate (playbackRate r)) v s
      | _ \<Rightarrow> s)"

text \<open>
  The dependency arrays. React runs an effect after the first render, and after a later
  render when some dependency differs from the previous render's; objects and elements
  are compared by identity.
\<close>

definition video_id :: "player \<Rightarrow> nat option" where
  "video_id s = map_option v_ref (video s)"

definition seek_id :: "props \<Rightarrow> nat option" where
  "seek_id p = map_option op_ref (seekOperation p)"

definition deps_reset :: "props \<Rightarrow> player \<Rightarrow> string option" where
  "deps_reset p s = url p"

definition deps_seek :: "props \<Rightarrow> player \<Rightarrow> nat option \<times> nat option" where
  "deps_seek p s = (video_id s, seek_id p)"

definition deps_volume :: "props \<Rightarrow> player \<Rightarrow> nat option \<times> jsnum \<times> bool" where
  "deps_volume p s = (video_id s, volume s, isMuted s)"

definition deps_rate :: "props \<Rightarrow> player \<Rightarrow> nat option \<times> jsnum" where
  "deps_rate p s = (video_id s, playbackRate s)"

definition changed :: "(props \<times> player) option \<Rightarrow> props \<Rightarrow> player \<Rightarrow> (props \<Rightarrow> player \<Rightarrow> 'd) \<Rightarrow> bool" where
  "changed prev p r deps =
     (case prev of None \<Rightarrow> True | Some (p0, r0) \<Rightarrow> deps p0 r0 \<noteq> deps p r)"

text \<open>
  The effect phase of one render with props \<open>p\<close> and state \<open>r\<close>, \<open>prev\<close> being the
  props and state of the previous render (\<open>None\<close> at the first one). The effects run in
  the order of the source.
\<close>

definition commit :: "(props \<times> player) option \<Rightarrow> props \<Rightarrow> player \<Rightarrow> player" where
  "commit prev p r =
     (let s1 = (if changed prev p r deps_reset then effect_reset r else r);
          s2 = (if changed prev p r deps_seek then effect_seek p r s1 else s1);
          s3 = (if changed prev p r deps_volume then effect_volume r s2 else s2);
          s4 = (if changed prev p r deps_rate then effect_rate r s3 else s3)
      in s4)"

text \<open>
  An effect that sets state causes one more render, with the same props. Only the reset
  sets state, and the render it causes finds \<open>url\<close> as it was: the effect phase of that
  second render ends the cycle. In it the rate effect runs again when the reset has changed
  \<open>playbackRate\<close>. Where the first effect phase has set no state, the second finds every
  dependency as it was and does nothing (lemma \<open>commit_unchanged\<close> below).
\<close>

definition settle :: "(props \<times> player) option \<Rightarrow> props \<Rightarrow> player \<Rightarrow> player" where
  "settle prev p r = commit (Some (p, r)) p (commit prev p r)"

section \<open>The host and the element\<close>

text \<open>
  \<open>jumpToTimecode\<close> of \<open>App\<close>: a new object \<open>{time, ts: Date.now()}\<close>, \<open>now\<close> being
  what \<open>Date.now()\<close> returns. The new object differs in identity from the one it replaces.
\<close>

definition jumpToTimecode :: "jsnum \<Rightarrow> nat \<Rightarrow> props \<Rightarrow> props" where
  "jumpToTimecode t now p =
     p\<lparr>seekOperation :=
         Some \<lparr>op_ref = (case seekOperation p of None \<Rightarrow> 0 | Some sk \<Rightarrow> Suc (op_ref sk)),
               op_time = t, op_ts = now\<rparr>\<rparr>"

text \<open>
  What reaches the player from outside: a seek request of the host, the ref callback
  \<open>setVideo\<close> with an element or with \<open>null\<close>, and a change of \<open>url\<close>. Each is
  followed by the effect phases of the renders it causes.
\<close>

datatype host_event =
    Request jsnum nat
  | SetVideo "video_el option"
  | SetUrl "string option"

fun host_step :: "props \<times> player \<Rightarrow> host_event \<Rightarrow> props \<times> player" where
  "host_step (p, s) (Request t now) =
     (let p' = jumpToTimecode t now p in (p', settle (Some (p, s)) p' s))"
| "host_step (p, s) (SetVideo v) =
     (let s' = s\<lparr>video := v\<rparr> in (p, settle (Some (p, s)) p s'))"
| "host_step (p, s) (SetUrl u) =
     (let p' = p\<lparr>url := u\<rparr> in (p', settle (Some (p, s)) p' s))"

definition run :: "props \<times> player \<Rightarrow> host_event list \<Rightarrow> props \<times> player" where
  "run st evs = foldl host_step st evs"

text \<open>The seeks among the logged operations.\<close>

fun is_seek :: "nat \<times> dom_op \<Rightarrow> bool" where
  "is_seek (_, SetCurrentTime _) = True"
| "is_seek _ = False"

definition seeks :: "player \<Rightarrow> (nat \<times> dom_op) list" where
  "seeks s = filter is_seek (calls s)"

section \<open>Concrete inputs\<close>

text \<open>
  Modelled from the spec: \<open>timeToSecs\<close> of the module \<open>utils\<close>, which is not among
  the source files. The spec gives the time of an entry as a formatted position such as
  \<open>"1:23"\<close> and orders the list by its numeric seconds equivalent: minutes and seconds
  in decimal digits around a colon, NaN for anything else. It serves the examples only;
  the general statements take \<open>timeToSecs\<close> as the parameter \<open>tts\<close>.
\<close>

definition digit_of :: "char \<Rightarrow> nat option" where
  "digit_of c =
     (let n = (of_char c :: nat) in if 48 \<le> n \<and> n \<le> 57 then Some (n - 48) else None)"

fun parse_digits :: "nat \<Rightarrow> string \<Rightarrow> nat option" where
  "parse_digits acc [] = Some acc"
| "parse_digits acc (c # cs) =
     (case digit_of c of None \<Rightarrow> None | Some d \<Rightarrow> parse_digits (10 * acc + d) cs)"

definition parse_nat :: "string \<Rightarrow> nat option" where
  "parse_nat cs = (if cs = [] then None else parse_digits 0 cs)"

definition timeToSecs_spec :: "string \<Rightarrow> jsnum" where
  "timeToSecs_spec t =
     (case dropWhile (\<lambda>c. c \<noteq> CHR '':'') t of
        [] \<Rightarrow> NaN
      | _ # ss \<Rightarrow>
          (case (parse_nat (takeWhile (\<lambda>c. c \<noteq> CHR '':'') t), parse_nat ss) of
             (Some m, Some n) \<Rightarrow> Num (real (60 * m + n))
           | _ \<Rightarrow> NaN))"

text \<open>The list of the spec's example scenarios: entries that carry a time only.\<close>

definition entry_at :: "string \<Rightarrow> timecode" where
  "entry_at t = \<lparr>tc_time = t, tc_text = None, tc_value = None, tc_objects = None\<rparr>"

definition example_list :: "timecode list" where
  "example_list = [entry_at ''0:05'', entry_at ''0:10'', entry_at ''0:20'']"

definition example_props :: props where
  "example_props = \<lparr>url = Some ''a.mp4'', timecodeList = Some example_list,
     seekOperation = None, isLoadingVideo = False, videoError = False\<rparr>"

text \<open>An element with identity \<open>i\<close> that reports position \<open>ct\<close> and duration \<open>d\<close>.\<close>

definition element :: "nat \<Rightarrow> jsnum \<Rightarrow> jsnum \<Rightarrow> video_el" where
  "element i ct d =
     \<lparr>v_ref = i, v_currentTime = ct, v_duration = d, v_volume = Num 1, v_playbackRate = Num 1\<rparr>"

text \<open>The initial state with such an element attached.\<close>

definition attached :: "nat \<Rightarrow> jsnum \<Rightarrow> jsnum \<Rightarrow> player" where
  "attached i ct d = initial\<lparr>video := Some (element i ct d)\<rparr>"

text \<open>Running one handler after another: an error ends the sequence.\<close>

definition and_then :: "error + player \<Rightarrow> (player \<Rightarrow> error + player) \<Rightarrow> error + player" where
  "and_then r f = (case r of Inl e \<Rightarrow> Inl e | Inr s \<Rightarrow> f s)"

text \<open>
  A player whose element, of duration 60, stands at 12 seconds, after \<open>durationchange\<close>;
  and the same player while it plays at double rate with the entry at 0:10 shown.
\<close>

definition loaded :: player where
  "loaded = (attached 1 (Num 12) (Num 60))\<lparr>duration := Num 60, scrubberTime := Num 0.2\<rparr>"

definition was_playing :: player where
  "was_playing =
     loaded\<lparr>isPlaying := True, playbackRate := Num 2, currentData := Some (entry_at ''0:10'')\<rparr>"

text \<open>
  Two targets of a key press: the scrubber of the player itself, an \<open>input\<close> of type
  \<open>range\<close>, which takes no text; and a \<open>div\<close> with \<open>contenteditable\<close>, which does.
\<close>

definition space_on_range_input :: key_event where
  "space_on_range_input =
     \<lparr>target_tagName = ''INPUT'', target_acceptsText = False, key = '' ''\<rparr>"

definition space_on_editable_div :: key_event where
  "space_on_editable_div =
     \<lparr>target_tagName = ''DIV'', target_acceptsText = True, key = '' ''\<rparr>"

section \<open>Properties\<close>

subsection \<open>Numbers\<close>

lemma js_le_refl: "js_le a b \<Longrightarrow> js_le a a"
  by (cases a; cases b) auto

lemma js_le_trans: "js_le a b \<Longrightarrow> js_le b c \<Longrightarrow> js_le a c"
  by (cases a; cases b; cases c) auto

lemma js_lt_not_le: "js_lt a b \<Longrightarrow> \<not> js_le b a"
  by (cases a; cases b) auto

subsection \<open>Selecting the annotation\<close>

text \<open>
  Where \<open>find\<close> on the reversed list returns an entry, the entry splits the list: it
  passes the test and nothing after it does.
\<close>

lemma find_rev_split:
  "find P (rev xs) = Some x \<Longrightarrow> \<exists>ys zs. xs = ys @ x # zs \<and> P x \<and> (\<forall>z\<in>set zs. \<not> P z)"
proof (induction xs rule: rev_induct)
  case Nil
  then show ?case by simp
next
  case (snoc a xs)
  show ?case
  proof (cases "P a")
    case True
    with snoc.prems have "x = a" by simp
    with True show ?thesis by (intro exI [of _ xs] exI [of _ "[]"]) simp
  next
    case False
    with snoc.prems have "find P (rev xs) = Some x" by simp
    then obtain ys zs where "xs = ys @ x # zs" "P x" "\<forall>z\<in>set zs. \<not> P z"
      using snoc.IH by blast
    with False have "xs @ [a] = ys @ x # (zs @ [a]) \<and> P x \<and> (\<forall>z\<in>set (zs @ [a]). \<not> P z)"
      by simp
    then show ?thesis by blast
  qed
qed

lemma select_annotation_None:
  "select_annotation tts tcs ct = None \<longleftrightarrow> (\<forall>e\<in>set tcs. \<not> js_le (tts (tc_time e)) ct)"
  by (auto simp: select_annotation_def find_None_iff)

lemma select_annotation_Some:
  assumes srt: "sorted_wrt (\<lambda>a b. js_le (tts (tc_time a)) (tts (tc_time b))) tcs"
    and sel: "select_annotation tts tcs ct = Some e"
  shows "e \<in> set tcs \<and> js_le (tts (tc_time e)) ct \<and>
         (\<forall>e'\<in>set tcs. js_le (tts (tc_time e')) ct \<longrightarrow> js_le (tts (tc_time e')) (tts (tc_time e)))"
proof -
  let ?P = "\<lambda>t. js_le (tts (tc_time t)) ct"
  from sel obtain ys zs where split: "tcs = ys @ e # zs" and pe: "?P e"
    and later: "\<forall>z\<in>set zs. \<not> ?P z"
    unfolding select_annotation_def using find_rev_split [of ?P tcs e] by blast
  from srt split have before: "\<forall>y\<in>set ys. js_le (tts (tc_time y)) (tts (tc_time e))"
    by (simp add: sorted_wrt_append)
  have "js_le (tts (tc_time e')) (tts (tc_time e))" if "e' \<in> set tcs" "?P e'" for e'
  proof -
    from that split later have "e' \<in> set ys \<or> e' = e" by auto
    then show ?thesis using before pe js_le_refl by blast
  qed
  with split pe show ?thesis by auto
qed

lemma select_annotation_before_first:
  assumes srt: "sorted_wrt (\<lambda>a b. js_le (tts (tc_time a)) (tts (tc_time b))) tcs"
    and ne: "tcs \<noteq> []" and lt: "js_lt ct (tts (tc_time (hd tcs)))"
  shows "select_annotation tts tcs ct = None"
proof -
  from ne obtain a as where tcs: "tcs = a # as" by (cases tcs) auto
  have "\<not> js_le (tts (tc_time e)) ct" if "e \<in> set tcs" for e
  proof
    assume le: "js_le (tts (tc_time e)) ct"
    from that tcs srt le have "js_le (tts (tc_time a)) (tts (tc_time e))"
      using js_le_refl by auto
    then have "js_le (tts (tc_time a)) ct" using le by (rule js_le_trans)
    with lt tcs show False using js_lt_not_le by auto
  qed
  then show ?thesis by (simp add: select_annotation_None)
qed

lemma updateTime_attached:
  "video s = Some v \<Longrightarrow> timecodeList p = Some tcs \<Longrightarrow>
   updateTime tts p s =
     Inr ((if \<not> isScrubbing s
           then s\<lparr>scrubberTime := js_div (v_currentTime v) (v_duration v)\<rparr> else s)
            \<lparr>currentData := select_annotation tts tcs (v_currentTime v)\<rparr>)"
  by (simp add: updateTime_def)

lemma updateTime_no_list:
  "video s = Some v \<Longrightarrow> timecodeList p = None \<Longrightarrow>
   updateTime tts p s =
     Inr (if \<not> isScrubbing s
          then s\<lparr>scrubberTime := js_div (v_currentTime v) (v_duration v)\<rparr> else s)"
  by (simp add: updateTime_def)

lemma timeToSecs_spec_examples:
  "timeToSecs_spec ''0:05'' = Num 5" "timeToSecs_spec ''0:10'' = Num 10"
  "timeToSecs_spec ''0:20'' = Num 20"
  by (simp_all add: timeToSecs_spec_def parse_nat_def digit_of_def)

text \<open>
  C1. On a time update with a list in ascending order of \<open>timeToSecs\<close> of the times and
  an element attached, the entry stored as the annotation is an entry of the list whose
  time is at most the element's \<open>currentTime\<close> and at least the time of every other such
  entry; it is none exactly when no entry has a time at most \<open>currentTime\<close>, and so
  when \<open>currentTime\<close> is before the time of the first entry.
\<close>

theorem updateTime_selects_greatest:
  assumes srt: "sorted_wrt (\<lambda>a b. js_le (tts (tc_time a)) (tts (tc_time b))) tcs"
    and tl: "timecodeList p = Some tcs" and vid: "video s = Some v"
  shows "\<exists>s'. updateTime tts p s = Inr s' \<and>
     (case currentData s' of
        None \<Rightarrow> \<forall>e\<in>set tcs. \<not> js_le (tts (tc_time e)) (v_currentTime v)
      | Some e \<Rightarrow> e \<in> set tcs \<and> js_le (tts (tc_time e)) (v_currentTime v) \<and>
          (\<forall>e'\<in>set tcs. js_le (tts (tc_time e')) (v_currentTime v) \<longrightarrow>
             js_le (tts (tc_time e')) (tts (tc_time e)))) \<and>
     (tcs \<noteq> [] \<and> js_lt (v_currentTime v) (tts (tc_time (hd tcs))) \<longrightarrow> currentData s' = None)"
proof -
  let ?sel = "select_annotation tts tcs (v_currentTime v)"
  from vid tl obtain s' where s': "updateTime tts p s = Inr s'" and cd: "currentData s' = ?sel"
    by (simp add: updateTime_attached)
  have a: "case ?sel of
        None \<Rightarrow> \<forall>e\<in>set tcs. \<not> js_le (tts (tc_time e)) (v_currentTime v)
      | Some e \<Rightarrow> e \<in> set tcs \<and> js_le (tts (tc_time e)) (v_currentTime v) \<and>
          (\<forall>e'\<in>set tcs. js_le (tts (tc_time e')) (v_currentTime v) \<longrightarrow>
             js_le (tts (tc_time e')) (tts (tc_time e)))"
  proof (cases ?sel)
    case None
    then show ?thesis using select_annotation_None [of tts tcs "v_currentTime v"] by simp
  next
    case (Some e)
    then show ?thesis using select_annotation_Some [OF srt, of "v_currentTime v" e] by simp
  qed
  have b: "tcs \<noteq> [] \<and> js_lt (v_currentTime v) (tts (tc_time (hd tcs))) \<longrightarrow> ?sel = None"
    using select_annotation_before_first [OF srt] by blast
  from s' cd a b show ?thesis by auto
qed

text \<open>
  The spec's scenarios: in the list 0:05, 0:10, 0:20 a time update at 12 seconds stores
  the entry at 0:10, and one at 3 seconds stores none.
\<close>

theorem updateTime_selects_greatest_witness:
  "sorted_wrt (\<lambda>a b. js_le (timeToSecs_spec (tc_time a)) (timeToSecs_spec (tc_time b)))
     example_list \<and>
   timecodeList example_props = Some example_list \<and>
   video (attached 1 (Num 12) (Num 60)) = Some (element 1 (Num 12) (Num 60)) \<and>
   (\<exists>s'. updateTime timeToSecs_spec example_props (attached 1 (Num 12) (Num 60)) = Inr s' \<and>
         currentData s' = Some (entry_at ''0:10'')) \<and>
   (\<exists>s'. updateTime timeToSecs_spec example_props (attached 1 (Num 3) (Num 60)) = Inr s' \<and>
         currentData s' = None)"
proof -
  have srt: "sorted_wrt (\<lambda>a b. js_le (timeToSecs_spec (tc_time a)) (timeToSecs_spec (tc_time b)))
     example_list"
    by (simp add: example_list_def entry_at_def timeToSecs_spec_examples)
  have tl: "timecodeList example_props = Some example_list"
    by (simp add: example_props_def)
  have v12: "video (attached 1 (Num 12) (Num 60)) = Some (element 1 (Num 12) (Num 60))"
    and v3: "video (attached 1 (Num 3) (Num 60)) = Some (element 1 (Num 3) (Num 60))"
    by (simp_all add: attached_def)
  have ne: "example_list \<noteq> []" and hd: "tc_time (hd example_list) = ''0:05''"
    by (simp_all add: example_list_def entry_at_def)
  have ct: "v_currentTime (element 1 (Num 3) (Num 60)) = Num 3"
    by (simp add: element_def)
  from updateTime_selects_greatest [OF srt tl v3] ne hd ct
  have at3: "\<exists>s'. updateTime timeToSecs_spec example_props (attached 1 (Num 3) (Num 60)) = Inr s' \<and>
         currentData s' = None"
    by (auto simp: timeToSecs_spec_examples)
  have at12: "\<exists>s'. updateTime timeToSecs_spec example_props (attached 1 (Num 12) (Num 60)) = Inr s' \<and>
         currentData s' = Some (entry_at ''0:10'')"
    by (subst updateTime_attached [OF v12 tl])
      (simp add: select_annotation_def example_list_def entry_at_def element_def
        timeToSecs_spec_examples)
  from srt tl v12 at12 at3 show ?thesis by blast
qed

subsection \<open>Cycling the playback rate\<close>

lemma rates_mem:
  "r \<in> set rates \<longleftrightarrow> r = Num 0.5 \<or> r = Num 1 \<or> r = Num 1.5 \<or> r = Num 2"
  by (simp add: rates_def)

lemma indexOf_rates:
  "indexOf rates r =
     (if r = Num 0.5 then 0 else if r = Num 1 then 1 else if r = Num 1.5 then 2
      else if r = Num 2 then 3 else -1)"
  by (auto simp: indexOf_def rates_def js_strict_eq_def)

lemma nextIndex_rates:
  "nextIndex r =
     (if r = Num 0.5 then 1 else if r = Num 1 then 2 else if r = Num 1.5 then 3 else 0)"
  by (simp add: nextIndex_def indexOf_rates js_rem_def) (simp add: rates_def)

lemma nextIndex_range: "0 \<le> nextIndex r \<and> nextIndex r < int (length rates)"
  by (simp add: nextIndex_rates rates_def)

lemma next_rate:
  "rates ! nat (nextIndex r) =
     (if r = Num 0.5 then Num 1 else if r = Num 1 then Num 1.5
      else if r = Num 1.5 then Num 2 else Num 0.5)"
  by (simp add: nextIndex_rates rates_def)

lemma cycle_rate:
  "playbackRate (cyclePlaybackRate s) =
     (if playbackRate s = Num 0.5 then Num 1 else if playbackRate s = Num 1 then Num 1.5
      else if playbackRate s = Num 1.5 then Num 2 else Num 0.5)"
  by (simp add: cyclePlaybackRate_def next_rate)

lemma cycle_four:
  "playbackRate s \<in> set rates \<Longrightarrow>
   cyclePlaybackRate (cyclePlaybackRate (cyclePlaybackRate (cyclePlaybackRate s))) = s"
  by (cases s) (auto simp: cyclePlaybackRate_def next_rate rates_mem)

text \<open>
  C7. \<open>cyclePlaybackRate\<close> moves the rate through 0.5, 1, 1.5, 2 in a circle: from 1 the
  next rates are 1.5, 2, 0.5 and 1 again; four calls from a rate of the array give back
  the state they started from; and from a rate that is not in the array \<open>indexOf\<close> is
  \<open>-1\<close>, the next index is 0 and the next rate is 0.5.
\<close>

theorem cyclePlaybackRate_circular:
  "(playbackRate s = Num 1 \<longrightarrow>
      playbackRate (cyclePlaybackRate s) = Num 1.5 \<and>
      playbackRate (cyclePlaybackRate (cyclePlaybackRate s)) = Num 2 \<and>
      playbackRate (cyclePlaybackRate (cyclePlaybackRate (cyclePlaybackRate s))) = Num 0.5 \<and>
      playbackRate (cyclePlaybackRate (cyclePlaybackRate (cyclePlaybackRate
        (cyclePlaybackRate s)))) = Num 1) \<and>
   (playbackRate s \<in> set rates \<longrightarrow>
      cyclePlaybackRate (cyclePlaybackRate (cyclePlaybackRate (cyclePlaybackRate s))) = s) \<and>
   (playbackRate s \<notin> set rates \<longrightarrow>
      indexOf rates (playbackRate s) = -1 \<and> nextIndex (playbackRate s) = 0 \<and>
      playbackRate (cyclePlaybackRate s) = rates ! 0 \<and> rates ! 0 = Num 0.5)"
proof (intro conjI impI)
  assume "playbackRate s \<in> set rates"
  then show "cyclePlaybackRate (cyclePlaybackRate (cyclePlaybackRate (cyclePlaybackRate s))) = s"
    by (rule cycle_four)
next
  assume n: "playbackRate s \<notin> set rates"
  then show "indexOf rates (playbackRate s) = -1"
    by (simp add: indexOf_rates rates_mem)
  from n show "nextIndex (playbackRate s) = 0"
    by (simp add: nextIndex_rates rates_mem)
  from n show "playbackRate (cyclePlaybackRate s) = rates ! 0"
    by (simp add: cycle_rate rates_mem) (simp add: rates_def)
  show "rates ! 0 = Num 0.5"
    by (simp add: rates_def)
qed (simp_all add: cycle_rate)

theorem cyclePlaybackRate_circular_witness:
  "playbackRate initial = Num 1 \<and>
   playbackRate (cyclePlaybackRate initial) = Num 1.5 \<and>
   playbackRate (cyclePlaybackRate (cyclePlaybackRate initial)) = Num 2 \<and>
   playbackRate (cyclePlaybackRate (cyclePlaybackRate (cyclePlaybackRate initial))) = Num 0.5 \<and>
   playbackRate initial \<in> set rates \<and>
   cyclePlaybackRate (cyclePlaybackRate (cyclePlaybackRate (cyclePlaybackRate initial))) = initial \<and>
   playbackRate (initial\<lparr>playbackRate := Num 3\<rparr>) \<notin> set rates \<and>
   playbackRate (cyclePlaybackRate (initial\<lparr>playbackRate := Num 3\<rparr>)) = Num 0.5 \<and>
   playbackRate (initial\<lparr>playbackRate := NaN\<rparr>) \<notin> set rates \<and>
   playbackRate (cyclePlaybackRate (initial\<lparr>playbackRate := NaN\<rparr>)) = Num 0.5"
proof -
  have one: "playbackRate initial = Num 1" and mem: "playbackRate initial \<in> set rates"
    by (simp_all add: initial_def rates_def)
  have three: "playbackRate (initial\<lparr>playbackRate := Num 3\<rparr>) \<notin> set rates"
    and nan: "playbackRate (initial\<lparr>playbackRate := NaN\<rparr>) \<notin> set rates"
    by (simp_all add: rates_def)
  from one mem cyclePlaybackRate_circular [of initial]
    three cyclePlaybackRate_circular [of "initial\<lparr>playbackRate := Num 3\<rparr>"]
    nan cyclePlaybackRate_circular [of "initial\<lparr>playbackRate := NaN\<rparr>"]
  show ?thesis by metis
qed

subsection \<open>Scrubbing\<close>

lemma calls_dom_write: "calls (dom_write op v s) = calls s @ [(v_ref v, op)]"
  by (simp add: dom_write_def)

lemma updateTime_scrubbing:
  assumes vid: "video s = Some v"
  shows "\<exists>s'. updateTime tts p s = Inr s' \<and> calls s' = calls s \<and>
     isScrubbing s' = isScrubbing s \<and> (isScrubbing s \<longrightarrow> scrubberTime s' = scrubberTime s)"
proof (cases "timecodeList p")
  case None
  then show ?thesis by (simp add: updateTime_no_list [OF vid])
next
  case (Some tcs)
  then show ?thesis by (simp add: updateTime_attached [OF vid])
qed

text \<open>
  C2, as the code has it. With an element attached: a time update issues no operation and,
  while \<open>isScrubbing\<close> is true, leaves the scrub fraction as it is; a drag move (the
  scrubber's \<open>onChange\<close> with value \<open>x\<close>) sets the fraction to \<open>x\<close> and at once
  issues one seek, to \<open>x * duration\<close>; pointer down sets \<open>isScrubbing\<close>, pointer up
  clears it, and neither issues an operation nor changes the fraction.
\<close>

theorem scrub_drag_seeks_on_move:
  assumes vid: "video s = Some v"
  shows "(\<exists>s'. updateTime tts p s = Inr s' \<and> calls s' = calls s \<and>
            (isScrubbing s \<longrightarrow> scrubberTime s' = scrubberTime s)) \<and>
     (\<exists>s'. scrubber_onChange x s = Inr s' \<and> scrubberTime s' = x \<and>
            isScrubbing s' = isScrubbing s \<and>
            calls s' = calls s @ [(v_ref v, SetCurrentTime (js_mul x (duration s)))]) \<and>
     scrubber_onPointerDown s = s\<lparr>isScrubbing := True\<rparr> \<and>
     scrubber_onPointerUp s = s\<lparr>isScrubbing := False\<rparr> \<and>
     calls (scrubber_onPointerUp s) = calls s \<and>
     scrubberTime (scrubber_onPointerUp s) = scrubberTime s"
proof -
  from updateTime_scrubbing [OF vid, of tts p]
  have a: "\<exists>s'. updateTime tts p s = Inr s' \<and> calls s' = calls s \<and>
            (isScrubbing s \<longrightarrow> scrubberTime s' = scrubberTime s)"
    by blast
  have b: "\<exists>s'. scrubber_onChange x s = Inr s' \<and> scrubberTime s' = x \<and>
            isScrubbing s' = isScrubbing s \<and>
            calls s' = calls s @ [(v_ref v, SetCurrentTime (js_mul x (duration s)))]"
    using vid by (simp add: scrubber_onChange_def dom_write_def)
  from a b show ?thesis
    by (simp add: scrubber_onPointerDown_def scrubber_onPointerUp_def)
qed

lemma element_simps:
  "v_ref (element i ct d) = i" "v_currentTime (element i ct d) = ct"
  "v_duration (element i ct d) = d" "v_volume (element i ct d) = Num 1"
  "v_playbackRate (element i ct d) = Num 1"
  by (simp_all add: element_def)

lemma loaded_simps:
  "video loaded = Some (element 1 (Num 12) (Num 60))" "duration loaded = Num 60"
  "calls loaded = []" "isScrubbing loaded = False" "scrubberTime loaded = Num 0.2"
  "isPlaying loaded = False" "currentData loaded = None"
  by (simp_all add: loaded_def attached_def initial_def)

theorem scrub_drag_seeks_on_move_witness:
  "video (scrubber_onPointerDown loaded) = Some (element 1 (Num 12) (Num 60)) \<and>
   (\<exists>s'. updateTime timeToSecs_spec example_props (scrubber_onPointerDown loaded) = Inr s' \<and>
          calls s' = [] \<and> scrubberTime s' = Num 0.2) \<and>
   (\<exists>s'. scrubber_onChange (Num 0.5) (scrubber_onPointerDown loaded) = Inr s' \<and>
          scrubberTime s' = Num 0.5 \<and> calls s' = [(1, SetCurrentTime (Num 30))])"
proof -
  have vid: "video (scrubber_onPointerDown loaded) = Some (element 1 (Num 12) (Num 60))"
    by (simp add: scrubber_onPointerDown_def loaded_simps)
  have facts: "isScrubbing (scrubber_onPointerDown loaded)"
    "calls (scrubber_onPointerDown loaded) = []"
    "scrubberTime (scrubber_onPointerDown loaded) = Num 0.2"
    "duration (scrubber_onPointerDown loaded) = Num 60"
    by (simp_all add: scrubber_onPointerDown_def loaded_simps)
  from scrub_drag_seeks_on_move [OF vid, of timeToSecs_spec example_props "Num 0.5"] vid
  show ?thesis by (auto simp: facts element_simps)
qed

text \<open>
  A drag with two moves, to 0.25 and to 0.5 of a duration of 60 seconds: each move seeks,
  to 15 and to 30 seconds, and the end of the drag adds no seek.
\<close>

theorem scrub_drag_counterexample:
  "map_sum id seeks
     (and_then (scrubber_onChange (Num 0.25) (scrubber_onPointerDown loaded))
        (scrubber_onChange (Num 0.5))) =
     Inr [(1, SetCurrentTime (Num 15)), (1, SetCurrentTime (Num 30))] \<and>
   map_sum id (seeks \<circ> scrubber_onPointerUp)
     (and_then (scrubber_onChange (Num 0.25) (scrubber_onPointerDown loaded))
        (scrubber_onChange (Num 0.5))) =
     Inr [(1, SetCurrentTime (Num 15)), (1, SetCurrentTime (Num 30))]"
  by (simp add: and_then_def scrubber_onChange_def scrubber_onPointerDown_def
      scrubber_onPointerUp_def loaded_simps dom_write_def apply_op_def seeks_def element_def)

subsection \<open>The scrub fraction\<close>

lemma updateTime_fraction:
  assumes vid: "video s = Some v" and ns: "\<not> isScrubbing s"
  shows "\<exists>s'. updateTime tts p s = Inr s' \<and> duration s' = duration s \<and>
     scrubberTime s' = js_div (v_currentTime v) (v_duration v)"
proof (cases "timecodeList p")
  case None
  then show ?thesis using ns by (simp add: updateTime_no_list [OF vid])
next
  case (Some tcs)
  then show ?thesis using ns by (simp add: updateTime_attached [OF vid])
qed

lemma js_div_unit:
  "0 \<le> a \<Longrightarrow> a \<le> d \<Longrightarrow> 0 < d \<Longrightarrow> \<exists>f. js_div (Num a) (Num d) = Num f \<and> 0 \<le> f \<and> f \<le> 1"
  by simp

lemma js_div_unknown: "js_div x NaN = NaN" "js_div (Num 0) (Num 0) = NaN"
  by (cases x) simp_all

lemma js_mul_NaN: "js_mul x NaN = NaN"
  by (cases x) simp_all

text \<open>
  C5, as the code has it. A time update outside a drag stores the quotient
  \<open>video.currentTime / video.duration\<close> as it comes. For a finite position between 0
  and a positive finite duration the stored fraction lies in \<open>[0, 1]\<close>. Where the
  duration is NaN, or is 0 with the position 0, the stored fraction is NaN; the guard
  \<open>|| 0\<close> stands where the fraction is read, so that the value of the scrubber and
  \<open>currentSecs\<close> are 0.
\<close>

theorem scrub_fraction_guarded_at_reads:
  assumes vid: "video s = Some v" and ns: "\<not> isScrubbing s"
  shows "\<exists>s'. updateTime tts p s = Inr s' \<and>
     scrubberTime s' = js_div (v_currentTime v) (v_duration v) \<and>
     (\<forall>a d. v_currentTime v = Num a \<and> v_duration v = Num d \<and> 0 \<le> a \<and> a \<le> d \<and> 0 < d \<longrightarrow>
        (\<exists>f. scrubberTime s' = Num f \<and> 0 \<le> f \<and> f \<le> 1)) \<and>
     (v_duration v = NaN \<or> (v_duration v = Num 0 \<and> v_currentTime v = Num 0) \<longrightarrow>
        scrubberTime s' = NaN \<and> scrubber_value s' = Num 0 \<and> currentSecs s' = Num 0)"
proof -
  from updateTime_fraction [OF vid ns, of tts p] obtain s'
    where s': "updateTime tts p s = Inr s'"
      and fr: "scrubberTime s' = js_div (v_currentTime v) (v_duration v)"
    by blast
  have unit: "\<exists>f. scrubberTime s' = Num f \<and> 0 \<le> f \<and> f \<le> 1"
    if "v_currentTime v = Num a \<and> v_duration v = Num d \<and> 0 \<le> a \<and> a \<le> d \<and> 0 < d" for a d
    using that fr js_div_unit [of a d] by simp
  have unknown: "scrubberTime s' = NaN \<and> scrubber_value s' = Num 0 \<and> currentSecs s' = Num 0"
    if "v_duration v = NaN \<or> (v_duration v = Num 0 \<and> v_currentTime v = Num 0)"
  proof -
    from that fr have nan: "scrubberTime s' = NaN"
      by (auto simp: js_div_unknown)
    then show ?thesis
      by (simp add: scrubber_value_def currentSecs_def js_or_def truthy_def js_mul_NaN)
  qed
  from s' fr unit unknown show ?thesis by blast
qed

theorem scrub_fraction_guarded_at_reads_witness:
  "video loaded = Some (element 1 (Num 12) (Num 60)) \<and> \<not> isScrubbing loaded \<and>
   (\<exists>s'. updateTime timeToSecs_spec example_props loaded = Inr s' \<and>
          scrubberTime s' = Num 0.2) \<and>
   video (attached 1 (Num 0) NaN) = Some (element 1 (Num 0) NaN) \<and>
   \<not> isScrubbing (attached 1 (Num 0) NaN) \<and>
   (\<exists>s'. updateTime timeToSecs_spec example_props (attached 1 (Num 0) NaN) = Inr s' \<and>
          scrubberTime s' = NaN \<and> scrubber_value s' = Num 0 \<and> currentSecs s' = Num 0)"
proof -
  have v1: "video loaded = Some (element 1 (Num 12) (Num 60))" and n1: "\<not> isScrubbing loaded"
    by (simp_all add: loaded_simps)
  have v2: "video (attached 1 (Num 0) NaN) = Some (element 1 (Num 0) NaN)"
    and n2: "\<not> isScrubbing (attached 1 (Num 0) NaN)"
    by (simp_all add: attached_def initial_def)
  from scrub_fraction_guarded_at_reads [OF v1 n1, of timeToSecs_spec example_props]
  have a: "\<exists>s'. updateTime timeToSecs_spec example_props loaded = Inr s' \<and>
          scrubberTime s' = Num 0.2"
    by (auto simp: element_simps)
  from scrub_fraction_guarded_at_reads [OF v2 n2, of timeToSecs_spec example_props]
  have b: "\<exists>s'. updateTime timeToSecs_spec example_props (attached 1 (Num 0) NaN) = Inr s' \<and>
          scrubberTime s' = NaN \<and> scrubber_value s' = Num 0 \<and> currentSecs s' = Num 0"
    by (auto simp: element_simps)
  from v1 n1 a v2 n2 b show ?thesis by blast
qed

text \<open>
  Before the metadata has loaded the element reports the duration NaN, and an element
  without content the duration 0: the time update stores NaN, not 0, and
  \<open>currentPercent\<close>, which reads the fraction without the guard, is NaN as well.
\<close>

theorem scrub_fraction_counterexample:
  "map_sum id scrubberTime (updateTime timeToSecs_spec example_props (attached 1 (Num 0) NaN)) =
     Inr NaN \<and>
   map_sum id scrubberTime
     (updateTime timeToSecs_spec example_props (attached 1 (Num 0) (Num 0))) = Inr NaN \<and>
   map_sum id currentPercent
     (updateTime timeToSecs_spec example_props (attached 1 (Num 0) NaN)) = Inr NaN \<and>
   NaN \<noteq> Num 0"
  by (simp add: updateTime_def attached_def initial_def element_def example_props_def
      currentPercent_def)

subsection \<open>The stored annotation\<close>

text \<open>
  C6, as the code has it. The annotation is kept in the state \<open>currentData\<close>. A time
  update made while a list is present overwrites it with the selection from that list
  and the element's \<open>currentTime\<close>, whatever was stored before; a time update made
  while the list is absent leaves the stored annotation as it is.
\<close>

theorem currentData_recomputed_when_list_present:
  assumes vid: "video s = Some v"
  shows "(\<forall>tcs. timecodeList p = Some tcs \<longrightarrow>
            (\<exists>s'. updateTime tts p s = Inr s' \<and>
                   currentData s' = select_annotation tts tcs (v_currentTime v))) \<and>
         (timecodeList p = None \<longrightarrow>
            (\<exists>s'. updateTime tts p s = Inr s' \<and> currentData s' = currentData s))"
  by (simp add: updateTime_attached [OF vid] updateTime_no_list [OF vid])

theorem currentData_recomputed_when_list_present_witness:
  "video was_playing = Some (element 1 (Num 12) (Num 60)) \<and>
   timecodeList (example_props\<lparr>timecodeList := Some [entry_at ''0:05'']\<rparr>) =
     Some [entry_at ''0:05''] \<and>
   currentData was_playing = Some (entry_at ''0:10'') \<and>
   (\<exists>s'. updateTime timeToSecs_spec (example_props\<lparr>timecodeList := Some [entry_at ''0:05'']\<rparr>)
            was_playing = Inr s' \<and>
          currentData s' = Some (entry_at ''0:05''))"
proof -
  have vid: "video was_playing = Some (element 1 (Num 12) (Num 60))"
    and cd: "currentData was_playing = Some (entry_at ''0:10'')"
    by (simp_all add: was_playing_def loaded_simps)
  have sel: "select_annotation timeToSecs_spec [entry_at ''0:05''] (Num 12) =
      Some (entry_at ''0:05'')"
    by (simp add: select_annotation_def entry_at_def timeToSecs_spec_examples)
  from currentData_recomputed_when_list_present [OF vid, of
      "example_props\<lparr>timecodeList := Some [entry_at ''0:05'']\<rparr>" timeToSecs_spec]
  have "\<exists>s'. updateTime timeToSecs_spec (example_props\<lparr>timecodeList := Some [entry_at ''0:05'']\<rparr>)
            was_playing = Inr s' \<and>
          currentData s' = Some (entry_at ''0:05'')"
    by (simp add: element_simps sel)
  with vid cd show ?thesis by simp
qed

text \<open>
  The list is taken away while the entry at 0:10 is shown: the next time update leaves
  that entry in place.
\<close>

theorem currentData_stale_counterexample:
  "timecodeList (example_props\<lparr>timecodeList := None\<rparr>) = None \<and>
   map_sum id currentData
     (updateTime timeToSecs_spec (example_props\<lparr>timecodeList := None\<rparr>) was_playing) =
     Inr (Some (entry_at ''0:10''))"
  by (simp add: updateTime_def was_playing_def loaded_def attached_def initial_def)

subsection \<open>Effects and the operations they issue\<close>

lemma seeks_dom_write:
  "seeks (dom_write op v s) = seeks s @ (if is_seek (v_ref v, op) then [(v_ref v, op)] else [])"
  by (simp add: seeks_def dom_write_def)

lemma video_dom_write: "video (dom_write op v s) = Some (apply_op op v)"
  by (simp add: dom_write_def)

lemma v_ref_apply_op: "v_ref (apply_op op v) = v_ref v"
  by (cases op) (simp_all add: apply_op_def)

lemma seeks_effect_reset: "seeks (effect_reset s) = seeks s"
  by (simp add: seeks_def effect_reset_def)

lemma seeks_effect_volume: "seeks (effect_volume r s) = seeks s"
  by (simp add: effect_volume_def seeks_dom_write split: option.splits)

lemma seeks_effect_rate: "seeks (effect_rate r s) = seeks s"
  by (simp add: effect_rate_def seeks_dom_write split: option.splits)

lemma fresh_seek_id: "seek_id (jumpToTimecode t now p) \<noteq> seek_id p"
  by (simp add: seek_id_def jumpToTimecode_def split: option.splits)

text \<open>
  The effect phase after a request of the host, with an element attached: the seek effect
  alone runs, and writes the time of the request.
\<close>

lemma commit_request:
  assumes vid: "video s = Some v"
  shows "commit (Some (p, s)) (jumpToTimecode t now p) s = dom_write (SetCurrentTime t) v s"
proof -
  have same: "url (jumpToTimecode t now p) = url p"
    "seekOperation (jumpToTimecode t now p) \<noteq> None"
    "map_option op_time (seekOperation (jumpToTimecode t now p)) = Some t"
    by (simp_all add: jumpToTimecode_def)
  then obtain sk where sk: "seekOperation (jumpToTimecode t now p) = Some sk" "op_time sk = t"
    by auto
  show ?thesis
    using fresh_seek_id [of t now p] vid same(1) sk
    by (simp add: commit_def changed_def deps_reset_def deps_seek_def deps_volume_def
        deps_rate_def effect_seek_def)
qed

text \<open>A render that finds every dependency as it was runs no effect.\<close>

lemma commit_unchanged:
  assumes "video_id s = video_id r" and "volume s = volume r" and "isMuted s = isMuted r"
    and "playbackRate s = playbackRate r"
  shows "commit (Some (p, r)) p s = s"
  using assms
  by (simp add: commit_def changed_def deps_reset_def deps_seek_def deps_volume_def
      deps_rate_def)

lemma settle_request:
  assumes vid: "video s = Some v"
  shows "settle (Some (p, s)) (jumpToTimecode t now p) s = dom_write (SetCurrentTime t) v s"
proof -
  have "video_id (dom_write (SetCurrentTime t) v s) = video_id s"
    using vid by (simp add: video_id_def video_dom_write v_ref_apply_op)
  then have "commit (Some (jumpToTimecode t now p, s)) (jumpToTimecode t now p)
      (dom_write (SetCurrentTime t) v s) = dom_write (SetCurrentTime t) v s"
    by (intro commit_unchanged) (simp_all add: dom_write_def)
  then show ?thesis
    by (simp add: settle_def commit_request [OF vid])
qed

lemma host_step_request:
  "video s = Some v \<Longrightarrow>
   host_step (p, s) (Request t now) = (jumpToTimecode t now p, dom_write (SetCurrentTime t) v s)"
  by (simp add: settle_request)

text \<open>The effect phase of a render that changed neither the element nor the request.\<close>

lemma commit_no_seek:
  assumes "video_id s' = video_id s" and "seek_id p' = seek_id p"
  shows "seeks (commit (Some (p, s)) p' s') = seeks s'"
  using assms
  by (simp add: commit_def changed_def deps_seek_def Let_def seeks_effect_reset
      seeks_effect_volume seeks_effect_rate)

text \<open>
  C3, as the code has it. The player tells requests apart by the identity of the object
  \<open>seekOperation\<close>; it never reads \<open>ts\<close>. With an element attached, every request of
  the host issues exactly one operation, the seek to the time of the request, whatever
  its \<open>ts\<close> and whatever the time of the request before it; so two requests for the same
  time issue two seeks. A render in which neither the object nor the element has changed
  issues no seek.
\<close>

theorem seek_request_applied_by_identity:
  assumes vid: "video s = Some v"
  shows "calls (snd (host_step (p, s) (Request t now))) = calls s @ [(v_ref v, SetCurrentTime t)] \<and>
     calls (snd (run (p, s) [Request t now1, Request t now2])) =
       calls s @ [(v_ref v, SetCurrentTime t), (v_ref v, SetCurrentTime t)] \<and>
     (\<forall>p' s'. video_id s' = video_id s \<and> seek_id p' = seek_id p \<longrightarrow>
        seeks (commit (Some (p, s)) p' s') = seeks s')"
proof -
  have one: "host_step (p, s) (Request t now) =
      (jumpToTimecode t now p, dom_write (SetCurrentTime t) v s)" for now
    by (rule host_step_request [OF vid])
  have vid': "video (dom_write (SetCurrentTime t) v s) = Some v"
    by (simp add: dom_write_def apply_op_def)
  have two: "run (p, s) [Request t now1, Request t now2] =
      (jumpToTimecode t now2 (jumpToTimecode t now1 p),
       dom_write (SetCurrentTime t) v (dom_write (SetCurrentTime t) v s))"
    by (simp add: run_def one host_step_request [OF vid'] del: host_step.simps)
  show ?thesis
    by (simp add: one two calls_dom_write commit_no_seek del: host_step.simps)
qed

theorem seek_request_applied_by_identity_witness:
  "video loaded = Some (element 1 (Num 12) (Num 60)) \<and>
   calls (snd (host_step (example_props, loaded) (Request (Num 30) 100))) =
     [(1, SetCurrentTime (Num 30))] \<and>
   calls (snd (run (example_props, loaded) [Request (Num 30) 100, Request (Num 30) 101])) =
     [(1, SetCurrentTime (Num 30)), (1, SetCurrentTime (Num 30))] \<and>
   video_id (cyclePlaybackRate loaded) = video_id loaded \<and>
   seeks (commit (Some (example_props, loaded)) example_props (cyclePlaybackRate loaded)) = []"
proof -
  have vid: "video loaded = Some (element 1 (Num 12) (Num 60))"
    by (simp add: loaded_simps)
  have same: "video_id (cyclePlaybackRate loaded) = video_id loaded"
    by (simp add: video_id_def cyclePlaybackRate_def)
  have none: "seeks (cyclePlaybackRate loaded) = []"
    by (simp add: seeks_def cyclePlaybackRate_def loaded_simps)
  from seek_request_applied_by_identity [OF vid, of example_props "Num 30" 100 100 101] same none
  show ?thesis by (simp add: loaded_simps element_simps)
qed

text \<open>
  One request, with \<open>ts\<close> 100, for second 30; then the host loads another video: the
  \<open>url\<close> changes, the element is detached (\<open>setVideo(null)\<close>) and a new element is
  attached. The request is applied a second time, to the new element.
\<close>

theorem seek_request_counterexample:
  "seeks (snd (run (example_props, loaded)
      [Request (Num 30) 100, SetUrl (Some ''b.mp4''), SetVideo None,
       SetVideo (Some (element 2 (Num 0) NaN))])) =
     [(1, SetCurrentTime (Num 30)), (2, SetCurrentTime (Num 30))]"
  by (simp add: run_def settle_def commit_def changed_def deps_reset_def deps_seek_def
      deps_volume_def deps_rate_def effect_seek_def effect_reset_def effect_volume_def
      effect_rate_def video_id_def seek_id_def jumpToTimecode_def example_props_def loaded_def
      attached_def initial_def element_def dom_write_def apply_op_def seeks_def)

subsection \<open>The reset on a change of \<open>url\<close>\<close>

lemma without_element_dom_write: "without_element (dom_write op v s) = without_element s"
  by (simp add: without_element_def dom_write_def)

lemma without_element_effects:
  "without_element (effect_seek p r s) = without_element s"
  "without_element (effect_volume r s) = without_element s"
  "without_element (effect_rate r s) = without_element s"
  by (simp_all add: effect_seek_def effect_volume_def effect_rate_def
      without_element_dom_write split: option.splits)

lemma without_element_commit:
  "without_element (commit prev p r) =
     without_element (if changed prev p r deps_reset then effect_reset r else r)"
  by (simp add: commit_def Let_def without_element_effects)

lemma without_element_fields:
  "duration (without_element s) = duration s"
  "scrubberTime (without_element s) = scrubberTime s"
  "isPlaying (without_element s) = isPlaying s"
  "isScrubbing (without_element s) = isScrubbing s"
  "currentData (without_element s) = currentData s"
  "volume (without_element s) = volume s"
  "isMuted (without_element s) = isMuted s"
  "playbackRate (without_element s) = playbackRate s"
  "isFullscreen (without_element s) = isFullscreen s"
  by (simp_all add: without_element_def)

lemma commit_url_changed:
  assumes "url p' \<noteq> url p"
  shows "without_element (commit (Some (p, r0)) p' r) = without_element (effect_reset r)"
  using assms by (simp add: without_element_commit changed_def deps_reset_def)

text \<open>
  C4, as the code has it. The effect phase of the render in which \<open>url\<close> has changed
  sets the scrub fraction to 0, \<open>isPlaying\<close> to false, \<open>playbackRate\<close> to 1 and the
  annotation to none, and keeps \<open>duration\<close>, \<open>volume\<close>, \<open>isMuted\<close>, \<open>isScrubbing\<close>
  and \<open>isFullscreen\<close>. The handlers of the element's events check no source: an
  \<open>onPlay\<close> handled after the reset sets \<open>isPlaying\<close> as at any other time.
\<close>

theorem url_change_resets_four_fields:
  assumes ch: "url p' \<noteq> url p" and s': "s' = commit (Some (p, r0)) p' r"
  shows "scrubberTime s' = Num 0 \<and> \<not> isPlaying s' \<and> playbackRate s' = Num 1 \<and>
     currentData s' = None \<and>
     duration s' = duration r \<and> volume s' = volume r \<and> isMuted s' = isMuted r \<and>
     isScrubbing s' = isScrubbing r \<and> isFullscreen s' = isFullscreen r \<and>
     isPlaying (onPlay s') \<and> scrubberTime (onPlay s') = Num 0"
proof -
  have w: "without_element s' = without_element (effect_reset r)"
    unfolding s' by (rule commit_url_changed [OF ch])
  have "scrubberTime (without_element s') = Num 0" "\<not> isPlaying (without_element s')"
    "playbackRate (without_element s') = Num 1" "currentData (without_element s') = None"
    "duration (without_element s') = duration r" "volume (without_element s') = volume r"
    "isMuted (without_element s') = isMuted r" "isScrubbing (without_element s') = isScrubbing r"
    "isFullscreen (without_element s') = isFullscreen r"
    unfolding w by (simp_all add: without_element_def effect_reset_def)
  then show ?thesis
    by (simp add: without_element_fields onPlay_def)
qed

theorem url_change_resets_four_fields_witness:
  "url (example_props\<lparr>url := Some ''b.mp4''\<rparr>) \<noteq> url example_props \<and>
   scrubberTime (commit (Some (example_props, was_playing))
     (example_props\<lparr>url := Some ''b.mp4''\<rparr>) was_playing) = Num 0 \<and>
   \<not> isPlaying (commit (Some (example_props, was_playing))
     (example_props\<lparr>url := Some ''b.mp4''\<rparr>) was_playing) \<and>
   playbackRate (commit (Some (example_props, was_playing))
     (example_props\<lparr>url := Some ''b.mp4''\<rparr>) was_playing) = Num 1 \<and>
   currentData (commit (Some (example_props, was_playing))
     (example_props\<lparr>url := Some ''b.mp4''\<rparr>) was_playing) = None \<and>
   duration (commit (Some (example_props, was_playing))
     (example_props\<lparr>url := Some ''b.mp4''\<rparr>) was_playing) = Num 60"
proof -
  have ch: "url (example_props\<lparr>url := Some ''b.mp4''\<rparr>) \<noteq> url example_props"
    by (simp add: example_props_def)
  have d: "duration was_playing = Num 60"
    by (simp add: was_playing_def loaded_simps)
  from url_change_resets_four_fields [OF ch refl, of was_playing was_playing] ch d
  show ?thesis by simp
qed

text \<open>
  The player plays \<open>a.mp4\<close>; the \<open>url\<close> changes to \<open>b.mp4\<close> and the reset clears
  \<open>isPlaying\<close>; a \<open>play\<close> event that was pending is then handled: \<open>isPlaying\<close> is
  true again. The duration of 60 seconds, which is not the default 0, outlasts the reset.
\<close>

theorem url_change_counterexample:
  "isPlaying was_playing \<and>
   \<not> isPlaying (commit (Some (example_props, was_playing))
     (example_props\<lparr>url := Some ''b.mp4''\<rparr>) was_playing) \<and>
   isPlaying (onPlay (commit (Some (example_props, was_playing))
     (example_props\<lparr>url := Some ''b.mp4''\<rparr>) was_playing)) \<and>
   duration (commit (Some (example_props, was_playing))
     (example_props\<lparr>url := Some ''b.mp4''\<rparr>) was_playing) = Num 60 \<and>
   duration initial = Num 0"
  by (simp add: onPlay_def commit_def changed_def deps_reset_def deps_seek_def deps_volume_def
      deps_rate_def effect_reset_def seek_id_def example_props_def was_playing_def
      loaded_simps initial_def)

subsection \<open>Muting\<close>

lemma commit_toggleMute:
  assumes vid: "video s = Some v"
  shows "commit (Some (p, s)) p (toggleMute s) =
     dom_write (SetVolume (if isMuted s then volume s else Num 0)) v (toggleMute s)"
  using vid
  by (simp add: commit_def changed_def deps_reset_def deps_seek_def deps_volume_def
      deps_rate_def video_id_def toggleMute_def effect_volume_def)

text \<open>
  C8. With an element attached and the player not muted, \<open>toggleMute\<close> and the effect
  it triggers set the volume of the element to 0 and leave the stored \<open>volume\<close> as it is;
  a second \<open>toggleMute\<close> sets the volume of the element to the stored \<open>volume\<close>, which
  is still the value from before the muting, and \<open>isMuted\<close> is false again.
\<close>

theorem mute_unmute_restores_volume:
  assumes vid: "video s = Some v" and nm: "\<not> isMuted s"
    and m: "m = commit (Some (p, s)) p (toggleMute s)"
    and u: "u = commit (Some (p, m)) p (toggleMute m)"
  shows "isMuted m \<and> volume m = volume s \<and> map_option v_volume (video m) = Some (Num 0) \<and>
     calls m = calls s @ [(v_ref v, SetVolume (Num 0))] \<and>
     \<not> isMuted u \<and> volume u = volume s \<and> map_option v_volume (video u) = Some (volume s) \<and>
     calls u = calls m @ [(v_ref v, SetVolume (volume s))]"
proof -
  have m': "m = dom_write (SetVolume (Num 0)) v (toggleMute s)"
    unfolding m using nm by (simp add: commit_toggleMute [OF vid])
  have vm: "video m = Some (apply_op (SetVolume (Num 0)) v)"
    and mm: "isMuted m" and volm: "volume m = volume s"
    and cm: "calls m = calls s @ [(v_ref v, SetVolume (Num 0))]"
    unfolding m' using nm by (simp_all add: dom_write_def toggleMute_def)
  have u': "u = dom_write (SetVolume (volume s)) (apply_op (SetVolume (Num 0)) v) (toggleMute m)"
    unfolding u using mm volm by (simp add: commit_toggleMute [OF vm])
  have "\<not> isMuted u" "volume u = volume s" "map_option v_volume (video u) = Some (volume s)"
    "calls u = calls m @ [(v_ref v, SetVolume (volume s))]"
    unfolding u' using mm volm
    by (simp_all add: dom_write_def toggleMute_def apply_op_def)
  with vm mm volm cm show ?thesis
    by (simp add: apply_op_def)
qed

theorem mute_unmute_restores_volume_witness:
  "video (volumeSlider_onChange (Num 0.4) loaded) = Some (element 1 (Num 12) (Num 60)) \<and>
   \<not> isMuted (volumeSlider_onChange (Num 0.4) loaded) \<and>
   volume (volumeSlider_onChange (Num 0.4) loaded) = Num 0.4 \<and>
   map_option v_volume (video (commit (Some (example_props, volumeSlider_onChange (Num 0.4) loaded))
     example_props (toggleMute (volumeSlider_onChange (Num 0.4) loaded)))) = Some (Num 0) \<and>
   volume (commit (Some (example_props, commit (Some (example_props,
       volumeSlider_onChange (Num 0.4) loaded)) example_props
         (toggleMute (volumeSlider_onChange (Num 0.4) loaded))))
     example_props (toggleMute (commit (Some (example_props,
       volumeSlider_onChange (Num 0.4) loaded)) example_props
         (toggleMute (volumeSlider_onChange (Num 0.4) loaded))))) = Num 0.4 \<and>
   map_option v_volume (video (commit (Some (example_props, commit (Some (example_props,
       volumeSlider_onChange (Num 0.4) loaded)) example_props
         (toggleMute (volumeSlider_onChange (Num 0.4) loaded))))
     example_props (toggleMute (commit (Some (example_props,
       volumeSlider_onChange (Num 0.4) loaded)) example_props
         (toggleMute (volumeSlider_onChange (Num 0.4) loaded)))))) = Some (Num 0.4)"
proof -
  have vid: "video (volumeSlider_onChange (Num 0.4) loaded) = Some (element 1 (Num 12) (Num 60))"
    and nm: "\<not> isMuted (volumeSlider_onChange (Num 0.4) loaded)"
    and vol: "volume (volumeSlider_onChange (Num 0.4) loaded) = Num 0.4"
    by (simp_all add: volumeSlider_onChange_def loaded_simps js_strict_eq_def)
  from mute_unmute_restores_volume [OF vid nm refl refl, of example_props] vid nm vol
  show ?thesis by simp
qed

subsection \<open>Toggling play and pause\<close>

lemma togglePlay_attached:
  assumes vid: "video s = Some v"
  shows "togglePlay s =
     Inr (s\<lparr>calls := calls s @ [(v_ref v, if isPlaying s then CallPause else CallPlay)]\<rparr>)"
  using vid by (cases s) (simp add: togglePlay_def dom_write_def apply_op_def)

lemma isPlaying_commit:
  "isPlaying (commit prev q r) = (isPlaying r \<and> \<not> changed prev q r deps_reset)"
proof -
  have "isPlaying (commit prev q r) = isPlaying (without_element (commit prev q r))"
    by (simp add: without_element_fields)
  also have "\<dots> = (isPlaying r \<and> \<not> changed prev q r deps_reset)"
    by (simp add: without_element_commit without_element_fields effect_reset_def)
  finally show ?thesis .
qed

lemma isPlaying_settle:
  "isPlaying (settle prev q r) = (isPlaying r \<and> \<not> changed prev q r deps_reset)"
  by (simp add: settle_def isPlaying_commit) (simp add: changed_def deps_reset_def)

text \<open>
  C10, as the code has it. The video surface and the play button have the same click
  handler. With an element attached it calls \<open>pause()\<close> when \<open>isPlaying\<close> is true and
  \<open>play()\<close> otherwise, once, and changes nothing of the state, \<open>isPlaying\<close> included.
  The flag is set by the handlers of the element's \<open>play\<close> and \<open>pause\<close> events; no
  other handler changes it, and of the effects the reset alone does: a render in which
  \<open>url\<close> has changed sets the flag to false, any other render leaves it as it is.
\<close>

theorem video_click_toggles_like_button:
  "video_onClick s = playButton_onClick s \<and>
   (\<forall>v. video s = Some v \<longrightarrow>
      video_onClick s =
        Inr (s\<lparr>calls := calls s @ [(v_ref v, if isPlaying s then CallPause else CallPlay)]\<rparr>) \<and>
      map_sum id isPlaying (video_onClick s) = Inr (isPlaying s)) \<and>
   onPlay s = s\<lparr>isPlaying := True\<rparr> \<and> onPause s = s\<lparr>isPlaying := False\<rparr> \<and>
   isPlaying (cyclePlaybackRate s) = isPlaying s \<and> isPlaying (toggleMute s) = isPlaying s \<and>
   isPlaying (volumeSlider_onChange x s) = isPlaying s \<and>
   isPlaying (scrubber_onPointerDown s) = isPlaying s \<and>
   isPlaying (scrubber_onPointerUp s) = isPlaying s \<and>
   (\<forall>s'. scrubber_onChange x s = Inr s' \<or> updateDuration s = Inr s' \<or>
         updateTime tts p s = Inr s' \<longrightarrow> isPlaying s' = isPlaying s) \<and>
   isPlaying (commit prev q s) = (isPlaying s \<and> \<not> changed prev q s deps_reset) \<and>
   isPlaying (settle prev q s) = (isPlaying s \<and> \<not> changed prev q s deps_reset)"
proof -
  have a: "isPlaying s' = isPlaying s" if "scrubber_onChange x s = Inr s'" for s'
    using that by (auto simp: scrubber_onChange_def dom_write_def split: option.splits)
  have b: "isPlaying s' = isPlaying s" if "updateDuration s = Inr s'" for s'
    using that by (auto simp: updateDuration_def split: option.splits)
  have c: "isPlaying s' = isPlaying s" if "updateTime tts p s = Inr s'" for s'
    using that by (auto simp: updateTime_def Let_def split: option.splits if_splits)
  have d: "video_onClick s = playButton_onClick s \<and>
   (\<forall>v. video s = Some v \<longrightarrow>
      video_onClick s =
        Inr (s\<lparr>calls := calls s @ [(v_ref v, if isPlaying s then CallPause else CallPlay)]\<rparr>) \<and>
      map_sum id isPlaying (video_onClick s) = Inr (isPlaying s)) \<and>
   onPlay s = s\<lparr>isPlaying := True\<rparr> \<and> onPause s = s\<lparr>isPlaying := False\<rparr> \<and>
   isPlaying (cyclePlaybackRate s) = isPlaying s \<and> isPlaying (toggleMute s) = isPlaying s \<and>
   isPlaying (volumeSlider_onChange x s) = isPlaying s \<and>
   isPlaying (scrubber_onPointerDown s) = isPlaying s \<and>
   isPlaying (scrubber_onPointerUp s) = isPlaying s"
    by (auto simp: video_onClick_def playButton_onClick_def togglePlay_attached onPlay_def
        onPause_def cyclePlaybackRate_def toggleMute_def volumeSlider_onChange_def
        scrubber_onPointerDown_def scrubber_onPointerUp_def)
  from a b c have e: "\<forall>s'. scrubber_onChange x s = Inr s' \<or> updateDuration s = Inr s' \<or>
         updateTime tts p s = Inr s' \<longrightarrow> isPlaying s' = isPlaying s"
    by blast
  from d e isPlaying_commit [of prev q s] isPlaying_settle [of prev q s]
  show ?thesis by blast
qed

theorem video_click_toggles_like_button_witness:
  "video loaded = Some (element 1 (Num 12) (Num 60)) \<and>
   video_onClick loaded = Inr (loaded\<lparr>calls := [(1, CallPlay)]\<rparr>) \<and>
   playButton_onClick loaded = Inr (loaded\<lparr>calls := [(1, CallPlay)]\<rparr>) \<and>
   video (onPlay loaded) = Some (element 1 (Num 12) (Num 60)) \<and>
   video_onClick (onPlay loaded) = Inr ((onPlay loaded)\<lparr>calls := [(1, CallPause)]\<rparr>) \<and>
   map_sum id isPlaying (video_onClick (onPlay loaded)) = Inr True \<and>
   isPlaying (settle (Some (example_props, onPlay loaded)) example_props (onPlay loaded)) \<and>
   \<not> isPlaying (settle (Some (example_props, onPlay loaded))
        (example_props\<lparr>url := Some ''b.mp4''\<rparr>) (onPlay loaded))"
proof -
  have vid: "video loaded = Some (element 1 (Num 12) (Num 60))"
    and vid': "video (onPlay loaded) = Some (element 1 (Num 12) (Num 60))"
    by (simp_all add: loaded_simps onPlay_def)
  have facts: "isPlaying (onPlay loaded)" "calls (onPlay loaded) = []"
    by (simp_all add: onPlay_def loaded_simps)
  have same: "\<not> changed (Some (example_props, onPlay loaded)) example_props (onPlay loaded)
      deps_reset"
    and other: "changed (Some (example_props, onPlay loaded))
      (example_props\<lparr>url := Some ''b.mp4''\<rparr>) (onPlay loaded) deps_reset"
    by (simp_all add: changed_def deps_reset_def example_props_def)
  from video_click_toggles_like_button
      [where s = loaded and x = "Num 0" and tts = timeToSecs_spec and p = example_props
        and prev = "Some (example_props, loaded)" and q = example_props]
    video_click_toggles_like_button
      [where s = "onPlay loaded" and x = "Num 0" and tts = timeToSecs_spec
        and p = example_props and prev = "Some (example_props, onPlay loaded)"
        and q = example_props]
    video_click_toggles_like_button
      [where s = "onPlay loaded" and x = "Num 0" and tts = timeToSecs_spec
        and p = example_props and prev = "Some (example_props, onPlay loaded)"
        and q = "example_props\<lparr>url := Some ''b.mp4''\<rparr>"]
    vid vid' same other
  show ?thesis by (auto simp: loaded_simps facts element_simps)
qed

text \<open>
  The player plays at double rate; the host changes the \<open>url\<close>. No \<open>play\<close> or
  \<open>pause\<close> event is handled and nothing is called on the element but the write of the
  rate, yet \<open>isPlaying\<close> is false afterwards.
\<close>

theorem isPlaying_reset_counterexample:
  "isPlaying was_playing \<and>
   \<not> isPlaying (snd (host_step (example_props, was_playing) (SetUrl (Some ''b.mp4'')))) \<and>
   calls (snd (host_step (example_props, was_playing) (SetUrl (Some ''b.mp4'')))) =
     [(1, SetPlaybackRate (Num 1))]"
  by (simp add: settle_def commit_def changed_def deps_reset_def deps_seek_def deps_volume_def
      deps_rate_def effect_reset_def effect_rate_def video_id_def seek_id_def
      example_props_def was_playing_def loaded_def attached_def initial_def element_def
      dom_write_def apply_op_def)

subsection \<open>The space bar\<close>

text \<open>
  C9, as the code has it. A key press toggles play and pause exactly when the key is the
  space and the tag name of the target is neither \<open>INPUT\<close> nor \<open>TEXTAREA\<close>; whether
  the target takes text input has no part in it.
\<close>

theorem space_toggles_unless_input_or_textarea:
  "(key e = '' '' \<and> target_tagName e \<noteq> ''INPUT'' \<and> target_tagName e \<noteq> ''TEXTAREA'' \<longrightarrow>
      onKeyPress e s = togglePlay s \<and>
      (\<forall>v. video s = Some v \<longrightarrow>
         map_sum id calls (onKeyPress e s) =
           Inr (calls s @ [(v_ref v, if isPlaying s then CallPause else CallPlay)]))) \<and>
   (key e \<noteq> '' '' \<or> target_tagName e = ''INPUT'' \<or> target_tagName e = ''TEXTAREA'' \<longrightarrow>
      onKeyPress e s = Inr s) \<and>
   onKeyPress (e\<lparr>target_acceptsText := b\<rparr>) s = onKeyPress e s"
  by (auto simp: onKeyPress_def togglePlay_attached)

theorem space_toggles_unless_input_or_textarea_witness:
  "key space_on_editable_div = '' '' \<and> target_tagName space_on_editable_div = ''DIV'' \<and>
   video loaded = Some (element 1 (Num 12) (Num 60)) \<and>
   map_sum id calls (onKeyPress space_on_editable_div loaded) = Inr [(1, CallPlay)] \<and>
   target_tagName space_on_range_input = ''INPUT'' \<and>
   onKeyPress space_on_range_input loaded = Inr loaded"
proof -
  have e1: "key space_on_editable_div = '' ''" "target_tagName space_on_editable_div = ''DIV''"
    and e2: "target_tagName space_on_range_input = ''INPUT''"
    by (simp_all add: space_on_editable_div_def space_on_range_input_def)
  from space_toggles_unless_input_or_textarea [of space_on_editable_div loaded True]
    space_toggles_unless_input_or_textarea [of space_on_range_input loaded False] e1 e2
  show ?thesis by (auto simp: loaded_simps element_simps)
qed

text \<open>
  The space bar pressed on the scrubber, which takes no text, does not toggle; pressed in
  an editable \<open>div\<close>, which takes text, it does.
\<close>

theorem space_key_counterexample:
  "target_acceptsText space_on_range_input = False \<and>
   onKeyPress space_on_range_input loaded = Inr loaded \<and>
   target_acceptsText space_on_editable_div = True \<and>
   map_sum id calls (onKeyPress space_on_editable_div loaded) = Inr [(1, CallPlay)]"
  by (simp add: onKeyPress_def space_on_range_input_def space_on_editable_div_def
      togglePlay_attached loaded_simps element_simps)

end
